theory Spec2Isabelle
  imports Main "HOL-Library.Word"
begin

section \<open>The socket domain model of \<^verbatim>\<open>netdev.go\<close>\<close>

text \<open>
  Go's \<^verbatim>\<open>int\<close> and \<^verbatim>\<open>uintptr\<close> have the same, platform dependent width \<open>'w\<close>:
  both are \<open>'w word\<close>. The declarations that only mention \<^verbatim>\<open>int\<close> take it as the type
  parameter \<open>'int\<close>, which the adapter fixes to \<open>'w word\<close>. An \<^verbatim>\<open>int\<close> is read with
  \<open>sint\<close>; a \<^verbatim>\<open>uintptr\<close>, a \<^verbatim>\<open>uint8\<close> and a \<^verbatim>\<open>uint16\<close> are read with \<open>uint\<close>.
  \<^verbatim>\<open>time.Duration\<close> is an \<^verbatim>\<open>int64\<close>.
\<close>

type_synonym byte = "8 word"
type_synonym Duration = "64 word"

text \<open>
  The named integer types (lines 37 to 47). A conversion \<^verbatim>\<open>AddressFamily(x)\<close> of the
  source is the constructor applied to \<open>x\<close>.
\<close>

datatype 'int AddressFamily = AddressFamily (AddressFamily_int: 'int)
datatype 'int SockType = SockType (SockType_int: 'int)
datatype 'int Protocol = Protocol (Protocol_int: 'int)
datatype 'int SockFlags = SockFlags (SockFlags_int: 'int)
datatype 'int SockOpt = SockOpt (SockOpt_int: 'int)
datatype 'int SockOptLevel = SockOptLevel (SockOptLevel_int: 'int)
datatype 'int Sockfd = Sockfd (Sockfd_int: 'int)

text \<open>
  \<^verbatim>\<open>SockAddr\<close> (lines 40 to 43): the arrays \<^verbatim>\<open>[2]byte\<close> and \<^verbatim>\<open>[4]byte\<close> have a fixed
  number of elements, so they are tuples.
\<close>

record SockAddr =
  port :: "byte \<times> byte"
  ip :: "byte \<times> byte \<times> byte \<times> byte"

text \<open>
  \<^verbatim>\<open>net.Addr\<close> is the standard library's interface with the two methods
  \<^verbatim>\<open>Network() string\<close> and \<^verbatim>\<open>String() string\<close>. An interface value is \<^verbatim>\<open>nil\<close> or an
  implementation, seen through what its two methods return.
\<close>

datatype net_Addr = nil_Addr | Addr (Network: string) (String: string)

text \<open>
  The driver contract \<^verbatim>\<open>Netdever\<close> (lines 11 to 35) with the embedded \<^verbatim>\<open>Socketer\<close>
  (lines 50 to 64). A driver is any implementation of the interface: a record of
  operations on the driver's own state \<open>'s\<close>, each returning its results and the state
  after the call. Go's \<^verbatim>\<open>error\<close> is \<open>'e option\<close> with \<open>None\<close> for \<^verbatim>\<open>nil\<close>; a result
  \<^verbatim>\<open>(T, error)\<close> is a pair, since Go returns both. The option value of
  \<^verbatim>\<open>SetSockOpt\<close> has the dynamic type \<open>'v\<close>. A byte slice is passed as its contents.
\<close>

record ('int, 'v, 'e, 's) Netdever =
  NetConnect :: "'s \<Rightarrow> 'e option \<times> 's"
  NetDisconnect :: "'s \<Rightarrow> 's"
  GetHostByName :: "string \<Rightarrow> 's \<Rightarrow> (byte list \<times> 'e option) \<times> 's"
  GetHardwareAddr :: "'s \<Rightarrow> (byte list \<times> 'e option) \<times> 's"
  GetIPAddr :: "'s \<Rightarrow> (byte list \<times> 'e option) \<times> 's"
  Socket :: "'int AddressFamily \<Rightarrow> 'int SockType \<Rightarrow> 'int Protocol \<Rightarrow> 's
    \<Rightarrow> ('int Sockfd \<times> 'e option) \<times> 's"
  Bind :: "'int Sockfd \<Rightarrow> SockAddr \<Rightarrow> 's \<Rightarrow> 'e option \<times> 's"
  Connect :: "'int Sockfd \<Rightarrow> SockAddr \<Rightarrow> 's \<Rightarrow> 'e option \<times> 's"
  Listen :: "'int Sockfd \<Rightarrow> 'int \<Rightarrow> 's \<Rightarrow> 'e option \<times> 's"
  Accept :: "'int Sockfd \<Rightarrow> SockAddr \<Rightarrow> 's \<Rightarrow> 'e option \<times> 's"
  Send :: "'int Sockfd \<Rightarrow> byte list \<Rightarrow> 'int SockFlags \<Rightarrow> Duration \<Rightarrow> 's
    \<Rightarrow> ('int \<times> 'e option) \<times> 's"
  SendTo :: "'int Sockfd \<Rightarrow> byte list \<Rightarrow> 'int SockFlags \<Rightarrow> SockAddr \<Rightarrow> Duration \<Rightarrow> 's
    \<Rightarrow> ('int \<times> 'e option) \<times> 's"
  Recv :: "'int Sockfd \<Rightarrow> byte list \<Rightarrow> 'int SockFlags \<Rightarrow> Duration \<Rightarrow> 's
    \<Rightarrow> ('int \<times> 'e option) \<times> 's"
  RecvFrom :: "'int Sockfd \<Rightarrow> byte list \<Rightarrow> 'int SockFlags \<Rightarrow> SockAddr \<Rightarrow> Duration \<Rightarrow> 's
    \<Rightarrow> ('int \<times> 'e option) \<times> 's"
  Close :: "'int Sockfd \<Rightarrow> 's \<Rightarrow> 'e option \<times> 's"
  SetSockOpt :: "'int Sockfd \<Rightarrow> 'int SockOptLevel \<Rightarrow> 'int SockOpt \<Rightarrow> 'v \<Rightarrow> 's
    \<Rightarrow> 'e option \<times> 's"

section \<open>The adapter \<^verbatim>\<open>netdeverWrapper\<close>\<close>

text \<open>The struct of lines 73 to 75 holds the wrapped driver.\<close>

record ('int, 'v, 'e, 's) netdeverWrapper =
  Netdever :: "('int, 'v, 'e, 's) Netdever"

text \<open>\<^verbatim>\<open>netAddrToSockAddr\<close> (lines 107 to 109) returns the zero value \<^verbatim>\<open>SockAddr{}\<close>.\<close>

definition netAddrToSockAddr :: "net_Addr \<Rightarrow> SockAddr" where
  "netAddrToSockAddr addr = \<lparr>port = (0, 0), ip = (0, 0, 0, 0)\<rparr>"

text \<open>
  \<^verbatim>\<open>uintptr(fde)\<close> converts an \<^verbatim>\<open>int\<close> to the unsigned type of the same width: the bits
  stay.
\<close>

definition uintptr :: "'w::len word Sockfd \<Rightarrow> 'w word" where
  "uintptr fde = (case fde of Sockfd i \<Rightarrow> i)"

definition netdeverWrapper_Socket ::
  "('w::len word, 'v, 'e, 's) netdeverWrapper \<Rightarrow> 'w word \<Rightarrow> 8 word \<Rightarrow> 'w word \<Rightarrow> 's
    \<Rightarrow> ('w word \<times> 'e option) \<times> 's" where
  "netdeverWrapper_Socket w family sockType protocol s =
     (case Socket (Netdever w) (AddressFamily family) (SockType (ucast sockType))
             (Protocol protocol) s of
        ((fde, err), s') \<Rightarrow> ((uintptr fde, err), s'))"

definition netdeverWrapper_Bind ::
  "('w::len word, 'v, 'e, 's) netdeverWrapper \<Rightarrow> 'w word \<Rightarrow> net_Addr \<Rightarrow> 's \<Rightarrow> 'e option \<times> 's" where
  "netdeverWrapper_Bind w sockfd addr s =
     Bind (Netdever w) (Sockfd sockfd) (netAddrToSockAddr addr) s"

definition netdeverWrapper_Connect ::
  "('w::len word, 'v, 'e, 's) netdeverWrapper \<Rightarrow> 'w word \<Rightarrow> net_Addr \<Rightarrow> 's \<Rightarrow> 'e option \<times> 's" where
  "netdeverWrapper_Connect w sockfd servaddr s =
     Connect (Netdever w) (Sockfd sockfd) (netAddrToSockAddr servaddr) s"

definition netdeverWrapper_Listen ::
  "('w::len word, 'v, 'e, 's) netdeverWrapper \<Rightarrow> 'w word \<Rightarrow> 'w word \<Rightarrow> 's \<Rightarrow> 'e option \<times> 's" where
  "netdeverWrapper_Listen w sockfd backlog s =
     Listen (Netdever w) (Sockfd sockfd) backlog s"

definition netdeverWrapper_Accept ::
  "('w::len word, 'v, 'e, 's) netdeverWrapper \<Rightarrow> 'w word \<Rightarrow> net_Addr \<Rightarrow> 's
    \<Rightarrow> ('w word \<times> 'e option) \<times> 's" where
  "netdeverWrapper_Accept w sockfd peer s =
     (case Accept (Netdever w) (Sockfd sockfd) (netAddrToSockAddr peer) s of
        (err, s') \<Rightarrow> ((0, err), s'))"

definition netdeverWrapper_Send ::
  "('w::len word, 'v, 'e, 's) netdeverWrapper \<Rightarrow> 'w word \<Rightarrow> byte list \<Rightarrow> 16 word \<Rightarrow> Duration \<Rightarrow> 's
    \<Rightarrow> ('w word \<times> 'e option) \<times> 's" where
  "netdeverWrapper_Send w sockfd buf flags timeout s =
     Send (Netdever w) (Sockfd sockfd) buf (SockFlags (ucast flags)) timeout s"

definition netdeverWrapper_Recv ::
  "('w::len word, 'v, 'e, 's) netdeverWrapper \<Rightarrow> 'w word \<Rightarrow> byte list \<Rightarrow> 16 word \<Rightarrow> Duration \<Rightarrow> 's
    \<Rightarrow> ('w word \<times> 'e option) \<times> 's" where
  "netdeverWrapper_Recv w sockfd buf flags timeout s =
     Recv (Netdever w) (Sockfd sockfd) buf (SockFlags (ucast flags)) timeout s"

definition netdeverWrapper_Close ::
  "('w::len word, 'v, 'e, 's) netdeverWrapper \<Rightarrow> 'w word \<Rightarrow> 's \<Rightarrow> 'e option \<times> 's" where
  "netdeverWrapper_Close w sockfd s = Close (Netdever w) (Sockfd sockfd) s"

definition netdeverWrapper_SetSockOpt ::
  "('w::len word, 'v, 'e, 's) netdeverWrapper \<Rightarrow> 'w word \<Rightarrow> 'w word \<Rightarrow> 'w word \<Rightarrow> 'v \<Rightarrow> 's
    \<Rightarrow> 'e option \<times> 's" where
  "netdeverWrapper_SetSockOpt w sockfd level opt optionValue s =
     SetSockOpt (Netdever w) (Sockfd sockfd) (SockOptLevel level) (SockOpt opt) optionValue s"

section \<open>The declared method set of \<^verbatim>\<open>Socketer\<close>\<close>

text \<open>
  The interface declaration of lines 50 to 64 as data: for each method its name, the
  types of its parameters and the types of its results, in the order of the source.
\<close>

datatype gotype =
  T_AddressFamily | T_SockType | T_Protocol | T_SockAddr | T_SockFlags | T_SockOpt
  | T_SockOptLevel | T_Sockfd | T_int | T_bytes | T_Duration | T_any | T_error

definition Socketer :: "(string \<times> gotype list \<times> gotype list) list" where
  "Socketer =
    [(''Socket'', [T_AddressFamily, T_SockType, T_Protocol], [T_Sockfd, T_error]),
     (''Bind'', [T_Sockfd, T_SockAddr], [T_error]),
     (''Connect'', [T_Sockfd, T_SockAddr], [T_error]),
     (''Listen'', [T_Sockfd, T_int], [T_error]),
     (''Accept'', [T_Sockfd, T_SockAddr], [T_error]),
     (''Send'', [T_Sockfd, T_bytes, T_SockFlags, T_Duration], [T_int, T_error]),
     (''SendTo'', [T_Sockfd, T_bytes, T_SockFlags, T_SockAddr, T_Duration], [T_int, T_error]),
     (''Recv'', [T_Sockfd, T_bytes, T_SockFlags, T_Duration], [T_int, T_error]),
     (''RecvFrom'', [T_Sockfd, T_bytes, T_SockFlags, T_SockAddr, T_Duration], [T_int, T_error]),
     (''Close'', [T_Sockfd], [T_error]),
     (''SetSockOpt'', [T_Sockfd, T_SockOptLevel, T_SockOpt, T_any], [T_error])]"

definition method_params :: "string \<Rightarrow> gotype list" where
  "method_params m = (case map_of Socketer m of None \<Rightarrow> [] | Some (ps, rs) \<Rightarrow> ps)"

definition method_results :: "string \<Rightarrow> gotype list" where
  "method_results m = (case map_of Socketer m of None \<Rightarrow> [] | Some (ps, rs) \<Rightarrow> rs)"

section \<open>A driver that records its calls\<close>

text \<open>
  Not part of the repository: an implementation of \<^verbatim>\<open>Netdever\<close> to run the adapter on.
  Its state is the list of the calls it has received; every method appends its call and
  returns the descriptor \<open>fd\<close>, the count \<open>n\<close> and the error \<open>err\<close> it was built with.
\<close>

datatype ('int, 'v) call =
  NetConnect_call
  | NetDisconnect_call
  | GetHostByName_call string
  | GetHardwareAddr_call
  | GetIPAddr_call
  | Socket_call "'int AddressFamily" "'int SockType" "'int Protocol"
  | Bind_call "'int Sockfd" SockAddr
  | Connect_call "'int Sockfd" SockAddr
  | Listen_call "'int Sockfd" 'int
  | Accept_call "'int Sockfd" SockAddr
  | Send_call "'int Sockfd" "byte list" "'int SockFlags" Duration
  | SendTo_call "'int Sockfd" "byte list" "'int SockFlags" SockAddr Duration
  | Recv_call "'int Sockfd" "byte list" "'int SockFlags" Duration
  | RecvFrom_call "'int Sockfd" "byte list" "'int SockFlags" SockAddr Duration
  | Close_call "'int Sockfd"
  | SetSockOpt_call "'int Sockfd" "'int SockOptLevel" "'int SockOpt" 'v

definition recorder ::
  "'int Sockfd \<Rightarrow> 'int \<Rightarrow> 'e option \<Rightarrow> ('int, 'v, 'e, ('int, 'v) call list) Netdever" where
  "recorder fd n err =
    \<lparr>NetConnect = (\<lambda>s. (err, s @ [NetConnect_call])),
     NetDisconnect = (\<lambda>s. s @ [NetDisconnect_call]),
     GetHostByName = (\<lambda>name s. (([], err), s @ [GetHostByName_call name])),
     GetHardwareAddr = (\<lambda>s. (([], err), s @ [GetHardwareAddr_call])),
     GetIPAddr = (\<lambda>s. (([], err), s @ [GetIPAddr_call])),
     Socket = (\<lambda>af st pr s. ((fd, err), s @ [Socket_call af st pr])),
     Bind = (\<lambda>sockfd a s. (err, s @ [Bind_call sockfd a])),
     Connect = (\<lambda>sockfd a s. (err, s @ [Connect_call sockfd a])),
     Listen = (\<lambda>sockfd backlog s. (err, s @ [Listen_call sockfd backlog])),
     Accept = (\<lambda>sockfd a s. (err, s @ [Accept_call sockfd a])),
     Send = (\<lambda>sockfd b fl t s. ((n, err), s @ [Send_call sockfd b fl t])),
     SendTo = (\<lambda>sockfd b fl a t s. ((n, err), s @ [SendTo_call sockfd b fl a t])),
     Recv = (\<lambda>sockfd b fl t s. ((n, err), s @ [Recv_call sockfd b fl t])),
     RecvFrom = (\<lambda>sockfd b fl a t s. ((n, err), s @ [RecvFrom_call sockfd b fl a t])),
     Close = (\<lambda>sockfd s. (err, s @ [Close_call sockfd])),
     SetSockOpt = (\<lambda>sockfd lvl opt v s. (err, s @ [SetSockOpt_call sockfd lvl opt v]))\<rparr>"

section \<open>Address conversion\<close>

text \<open>
  Claim C2. Whatever \<^verbatim>\<open>net.Addr\<close> it is given, \<^verbatim>\<open>nil\<close> included, \<^verbatim>\<open>netAddrToSockAddr\<close>
  returns the zero \<^verbatim>\<open>SockAddr\<close>, port bytes 0 0 and address bytes 0 0 0 0; hence the
  adapter's \<^verbatim>\<open>Bind\<close> and \<^verbatim>\<open>Connect\<close> hand the all-zero address to the wrapped driver,
  whatever address the caller supplied.
\<close>

theorem netAddrToSockAddr_zero:
  "netAddrToSockAddr addr = \<lparr>port = (0, 0), ip = (0, 0, 0, 0)\<rparr>
   \<and> netAddrToSockAddr nil_Addr = \<lparr>port = (0, 0), ip = (0, 0, 0, 0)\<rparr>
   \<and> netdeverWrapper_Bind w sockfd addr s
       = Bind (Netdever w) (Sockfd sockfd) \<lparr>port = (0, 0), ip = (0, 0, 0, 0)\<rparr> s
   \<and> netdeverWrapper_Connect w sockfd addr s
       = Connect (Netdever w) (Sockfd sockfd) \<lparr>port = (0, 0), ip = (0, 0, 0, 0)\<rparr> s"
  by (simp add: netAddrToSockAddr_def netdeverWrapper_Bind_def netdeverWrapper_Connect_def)

text \<open>
  Claim C1. Converting a \<^verbatim>\<open>SockAddr\<close> to a \<^verbatim>\<open>net.Addr\<close> and back should give the
  same port and address bytes. The source has no routine for the first direction, so it
  is any function \<open>toNetAddr\<close> here. For port 8080 at 192.168.1.1, in the form of a
  TCP address or in any other, \<^verbatim>\<open>netAddrToSockAddr\<close> answers the zero address, which is
  another value.
\<close>

theorem netAddrToSockAddr_roundtrip_lost:
  "netAddrToSockAddr (Addr ''tcp'' ''192.168.1.1:8080'') = \<lparr>port = (0, 0), ip = (0, 0, 0, 0)\<rparr>
   \<and> netAddrToSockAddr (toNetAddr \<lparr>port = (0x1F, 0x90), ip = (192, 168, 1, 1)\<rparr>)
     = \<lparr>port = (0, 0), ip = (0, 0, 0, 0)\<rparr>
   \<and> netAddrToSockAddr (toNetAddr \<lparr>port = (0x1F, 0x90), ip = (192, 168, 1, 1)\<rparr>)
     \<noteq> \<lparr>port = (0x1F, 0x90), ip = (192, 168, 1, 1)\<rparr>"
  by (simp add: netAddrToSockAddr_def)

section \<open>What the adapter hands on\<close>

text \<open>
  Claim C3. For every descriptor and every driver, the adapter's \<^verbatim>\<open>Accept\<close> returns 0
  as the descriptor of the new connection, and as its error exactly the error of the
  wrapped driver's \<^verbatim>\<open>Accept\<close>; the driver is left in the state of that one call.
\<close>

theorem netdeverWrapper_Accept_placeholder:
  "fst (fst (netdeverWrapper_Accept w sockfd peer s)) = 0
   \<and> snd (fst (netdeverWrapper_Accept w sockfd peer s))
       = fst (Accept (Netdever w) (Sockfd sockfd) (netAddrToSockAddr peer) s)
   \<and> snd (netdeverWrapper_Accept w sockfd peer s)
       = snd (Accept (Netdever w) (Sockfd sockfd) (netAddrToSockAddr peer) s)"
  by (simp add: netdeverWrapper_Accept_def split: prod.split)

text \<open>
  Claim C4. For each of the nine adapter methods and every input, the error the adapter
  returns is the error returned by the one call it makes on the wrapped driver, and the
  driver's state afterwards is the state after that call: nothing is swallowed, wrapped,
  replaced or added.
\<close>

theorem netdeverWrapper_error_forwarded:
  "snd (fst (netdeverWrapper_Socket w family sockType protocol s))
     = snd (fst (Socket (Netdever w) (AddressFamily family) (SockType (ucast sockType))
                   (Protocol protocol) s))
   \<and> snd (netdeverWrapper_Socket w family sockType protocol s)
     = snd (Socket (Netdever w) (AddressFamily family) (SockType (ucast sockType))
              (Protocol protocol) s)
   \<and> netdeverWrapper_Bind w sockfd addr s
     = Bind (Netdever w) (Sockfd sockfd) (netAddrToSockAddr addr) s
   \<and> netdeverWrapper_Connect w sockfd addr s
     = Connect (Netdever w) (Sockfd sockfd) (netAddrToSockAddr addr) s
   \<and> netdeverWrapper_Listen w sockfd backlog s
     = Listen (Netdever w) (Sockfd sockfd) backlog s
   \<and> snd (fst (netdeverWrapper_Accept w sockfd addr s))
     = fst (Accept (Netdever w) (Sockfd sockfd) (netAddrToSockAddr addr) s)
   \<and> snd (netdeverWrapper_Accept w sockfd addr s)
     = snd (Accept (Netdever w) (Sockfd sockfd) (netAddrToSockAddr addr) s)
   \<and> netdeverWrapper_Send w sockfd buf flags timeout s
     = Send (Netdever w) (Sockfd sockfd) buf (SockFlags (ucast flags)) timeout s
   \<and> netdeverWrapper_Recv w sockfd buf flags timeout s
     = Recv (Netdever w) (Sockfd sockfd) buf (SockFlags (ucast flags)) timeout s
   \<and> netdeverWrapper_Close w sockfd s = Close (Netdever w) (Sockfd sockfd) s
   \<and> netdeverWrapper_SetSockOpt w sockfd level opt optionValue s
     = SetSockOpt (Netdever w) (Sockfd sockfd) (SockOptLevel level) (SockOpt opt)
         optionValue s"
  by (simp add: netdeverWrapper_Socket_def netdeverWrapper_Bind_def
      netdeverWrapper_Connect_def netdeverWrapper_Listen_def netdeverWrapper_Accept_def
      netdeverWrapper_Send_def netdeverWrapper_Recv_def netdeverWrapper_Close_def
      netdeverWrapper_SetSockOpt_def split: prod.split)

text \<open>
  A \<^verbatim>\<open>uint8\<close> converted to an \<^verbatim>\<open>int\<close> wider than eight bits is zero-extended and reads
  as the same number.
\<close>

lemma sint_ucast_uint8:
  fixes x :: "8 word"
  assumes "8 < LENGTH('w::len)"
  shows "sint (ucast x :: 'w word) = uint x"
proof -
  have up: "uint (ucast x :: 'w word) = uint x"
    using assms by (simp add: uint_up_ucast is_up)
  have "uint x < 2 ^ 8"
    using uint_bounded [of x] by simp
  also have "(2::int) ^ 8 \<le> 2 ^ (LENGTH('w) - 1)"
    using assms by (intro power_increasing) simp_all
  finally have small: "uint x < 2 ^ (LENGTH('w) - 1)" .
  have "sint (ucast x :: 'w word) = signed_take_bit (LENGTH('w) - 1) (uint x)"
    by (simp add: sint_uint up)
  also have "\<dots> = uint x"
  proof (rule signed_take_bit_int_eq_self)
    have "- (2 ^ (LENGTH('w) - 1)) \<le> (0::int)" by simp
    also have "0 \<le> uint x" by simp
    finally show "- (2 ^ (LENGTH('w) - 1)) \<le> uint x" .
    show "uint x < 2 ^ (LENGTH('w) - 1)" by (rule small)
  qed
  finally show ?thesis .
qed

text \<open>
  Claim C5. For every family code, socket type byte and protocol code, known or not, the
  adapter's \<^verbatim>\<open>Socket\<close> calls the driver's \<^verbatim>\<open>Socket\<close> with \<^verbatim>\<open>AddressFamily(family)\<close>,
  \<^verbatim>\<open>SockType(sockType)\<close> and \<^verbatim>\<open>Protocol(protocol)\<close>, each of the same numeric value as
  the code given, and returns what the driver returns: no code is rejected on the way.
  The width of \<^verbatim>\<open>int\<close> is more than eight bits.
\<close>

theorem netdeverWrapper_Socket_passes_codes:
  fixes family protocol :: "'w::len word" and sockType :: "8 word"
  assumes "8 < LENGTH('w)"
  shows "netdeverWrapper_Socket w family sockType protocol s
      = (case Socket (Netdever w) (AddressFamily family) (SockType (ucast sockType))
                (Protocol protocol) s of
           ((fde, err), s') \<Rightarrow> ((uintptr fde, err), s'))
    \<and> sint (AddressFamily_int (AddressFamily family)) = sint family
    \<and> sint (SockType_int (SockType (ucast sockType :: 'w word))) = uint sockType
    \<and> sint (Protocol_int (Protocol protocol)) = sint protocol"
  using assms by (simp add: netdeverWrapper_Socket_def sint_ucast_uint8)

text \<open>
  On a 32-bit target, the recording driver receives family 999, type 200 and protocol -7
  as they are, and its descriptor 5 and its error come back.
\<close>

theorem netdeverWrapper_Socket_passes_codes_witness:
  "8 < LENGTH(32)
   \<and> netdeverWrapper_Socket \<lparr>Netdever = recorder (Sockfd 5) 0 (Some ''unsupported'')\<rparr>
        (999 :: 32 word) 200 (- 7) ([] :: (32 word, unit) call list)
     = ((5, Some ''unsupported''),
        [Socket_call (AddressFamily 999) (SockType 200) (Protocol (- 7))])
   \<and> sint (SockType_int (SockType (ucast (200 :: 8 word) :: 32 word))) = 200"
  using netdeverWrapper_Socket_passes_codes [where 'w = 32 and sockType = 200
      and family = 999 and protocol = "- 7" and s = "[] :: (32 word, unit) call list"
      and w = "\<lparr>Netdever = recorder (Sockfd 5) 0 (Some ''unsupported'')\<rparr>"]
  by (simp add: uintptr_def recorder_def)

text \<open>
  Claim C6. For an option value of any type \<open>'v\<close>, the adapter's \<^verbatim>\<open>SetSockOpt\<close> calls
  the driver's \<^verbatim>\<open>SetSockOpt\<close> with that very value, and with a level and an option whose
  numeric values are those of the codes it was given. On the recording driver the call
  that arrives carries the value as it was passed.
\<close>

theorem netdeverWrapper_SetSockOpt_passes_value:
  "netdeverWrapper_SetSockOpt w sockfd level opt optionValue s
     = SetSockOpt (Netdever w) (Sockfd sockfd) (SockOptLevel level) (SockOpt opt)
         optionValue s
   \<and> sint (SockOptLevel_int (SockOptLevel level)) = sint level
   \<and> sint (SockOpt_int (SockOpt opt)) = sint opt
   \<and> netdeverWrapper_SetSockOpt \<lparr>Netdever = recorder fd n err\<rparr> sockfd level opt
         optionValue []
     = (err, [SetSockOpt_call (Sockfd sockfd) (SockOptLevel level) (SockOpt opt) optionValue])"
  by (simp add: netdeverWrapper_SetSockOpt_def recorder_def)

section \<open>Wait durations in the driver contract\<close>

text \<open>
  Claim C7 as stated, that each of \<^verbatim>\<open>Accept\<close>, \<^verbatim>\<open>Send\<close>, \<^verbatim>\<open>SendTo\<close>, \<^verbatim>\<open>Recv\<close> and
  \<^verbatim>\<open>RecvFrom\<close> takes a wait duration and that \<^verbatim>\<open>Accept\<close> produces the peer's address,
  fails for \<^verbatim>\<open>Accept\<close>: it has no duration among its parameters and no address among
  its results.
\<close>

theorem Accept_has_no_timeout:
  "\<not> (T_Duration \<in> set (method_params ''Accept'')
      \<and> T_Duration \<in> set (method_params ''Send'')
      \<and> T_Duration \<in> set (method_params ''SendTo'')
      \<and> T_Duration \<in> set (method_params ''Recv'')
      \<and> T_Duration \<in> set (method_params ''RecvFrom'')
      \<and> T_SockAddr \<in> set (method_results ''Accept''))"
  by (simp add: method_params_def method_results_def Socketer_def)

text \<open>
  Claim C7, amended. \<^verbatim>\<open>Send\<close>, \<^verbatim>\<open>SendTo\<close>, \<^verbatim>\<open>Recv\<close> and \<^verbatim>\<open>RecvFrom\<close> each take a wait
  duration as their last parameter. \<^verbatim>\<open>Accept\<close> takes the descriptor and a peer address
  passed by value, takes no duration, and returns an error only.
\<close>

theorem Socketer_wait_durations:
  "last (method_params ''Send'') = T_Duration
   \<and> last (method_params ''SendTo'') = T_Duration
   \<and> last (method_params ''Recv'') = T_Duration
   \<and> last (method_params ''RecvFrom'') = T_Duration
   \<and> method_params ''Accept'' = [T_Sockfd, T_SockAddr]
   \<and> method_results ''Accept'' = [T_error]"
  by (simp add: method_params_def method_results_def Socketer_def)

end
